theory Spec2Isabelle
  imports Main
begin

section \<open>Python values handled by the bot\<close>

text \<open>
  A Python \<open>float\<close> is an IEEE double: a dyadic number \<open>m * 2 ^ e\<close> with a signed
  mantissa, the negative zero (Python prints its sign), an infinity or a NaN.
\<close>

datatype pyfloat = Finite int int | NegZero | Infinity bool | NaN

text \<open>
  What \<open>response.json()\<close> can return. Strings are byte lists (UTF-8); Python's
  integers are unbounded; a dict is an association list read with \<open>map_of\<close>.
\<close>

datatype json =
    JNull
  | JBool bool
  | JInt int
  | JFloat pyfloat
  | JStr string
  | JList "json list"
  | JDict "(string \<times> json) list"

datatype pyexn =
    AttributeError | KeyError | TypeError | ValueError | OverflowError
  | ZeroDivisionError | ClientError | DecodeError | HTTPException

text \<open>Truth value of an object, as \<open>or\<close> and \<open>not\<close> test it.\<close>

fun float_is_zero :: "pyfloat \<Rightarrow> bool" where
  "float_is_zero (Finite m e) = (m = 0)"
| "float_is_zero NegZero = True"
| "float_is_zero (Infinity s) = False"
| "float_is_zero NaN = False"

fun truthy :: "json \<Rightarrow> bool" where
  "truthy JNull = False"
| "truthy (JBool b) = b"
| "truthy (JInt i) = (i \<noteq> 0)"
| "truthy (JFloat f) = (\<not> float_is_zero f)"
| "truthy (JStr s) = (s \<noteq> [])"
| "truthy (JList xs) = (xs \<noteq> [])"
| "truthy (JDict kvs) = (kvs \<noteq> [])"

definition py_or :: "json \<Rightarrow> json \<Rightarrow> json" where
  "py_or x y = (if truthy x then x else y)"

text \<open>\<open>isinstance(x, (int, float))\<close>: \<open>bool\<close> is a subclass of \<open>int\<close>.\<close>

fun is_number :: "json \<Rightarrow> bool" where
  "is_number (JBool b) = True"
| "is_number (JInt i) = True"
| "is_number (JFloat f) = True"
| "is_number v = False"

text \<open>\<open>obj.get(key)\<close>: only a dict has the method; a missing key gives \<open>None\<close>.\<close>

fun py_get :: "json \<Rightarrow> string \<Rightarrow> pyexn + json" where
  "py_get (JDict kvs) k = Inr (case map_of kvs k of None \<Rightarrow> JNull | Some v \<Rightarrow> v)"
| "py_get v k = Inl AttributeError"

text \<open>\<open>obj[key]\<close> with a string key.\<close>

fun py_getitem :: "json \<Rightarrow> string \<Rightarrow> pyexn + json" where
  "py_getitem (JDict kvs) k = (case map_of kvs k of None \<Rightarrow> Inl KeyError | Some v \<Rightarrow> Inr v)"
| "py_getitem v k = Inl TypeError"

subsection \<open>Double-precision arithmetic\<close>

text \<open>Number of binary digits of a positive integer.\<close>

function bitlen :: "int \<Rightarrow> int" where
  "bitlen n = (if n \<le> 0 then 0 else 1 + bitlen (n div 2))"
  by pat_completeness auto
termination
  by (relation "measure nat") auto

declare bitlen.simps [simp del]

text \<open>\<open>n / d\<close> rounded to the nearest integer, ties to the even one (\<open>0 \<le> n\<close>, \<open>0 < d\<close>).\<close>

definition round_half_even :: "int \<Rightarrow> int \<Rightarrow> int" where
  "round_half_even n d =
     (let q = n div d; r = n mod d
      in if d < 2 * r \<or> (2 * r = d \<and> odd q) then q + 1 else q)"

fun float_sign :: "pyfloat \<Rightarrow> bool" where
  "float_sign (Finite m e) = (m < 0)"
| "float_sign NegZero = True"
| "float_sign (Infinity s) = s"
| "float_sign NaN = False"

definition signed_zero :: "bool \<Rightarrow> pyfloat" where
  "signed_zero s = (if s then NegZero else Finite 0 0)"

text \<open>
  The double nearest to \<open>n / d\<close> (\<open>0 \<le> n\<close>, \<open>0 < d\<close>), negated when \<open>s\<close>: 53
  significant bits, exponent at least \<open>-1074\<close> (subnormals, underflow to zero),
  infinity from \<open>2 ^ 1024\<close> on.
\<close>

definition to_double :: "bool \<Rightarrow> int \<Rightarrow> int \<Rightarrow> pyfloat" where
  "to_double s n d =
     (if n = 0 then signed_zero s
      else
        let e0 = bitlen n - bitlen d - 53;
            e1 = (if (if 0 \<le> e0 then 2 ^ 53 * (d * 2 ^ nat e0) \<le> n
                      else 2 ^ 53 * d \<le> n * 2 ^ nat (- e0))
                  then e0 + 1 else e0);
            e = max e1 (- 1074);
            q = (if 0 \<le> e then round_half_even n (d * 2 ^ nat e)
                 else round_half_even (n * 2 ^ nat (- e)) d)
        in if 0 \<le> e \<and> 2 ^ 1024 \<le> q * 2 ^ nat e then Infinity s
           else if q = 0 then signed_zero s
           else Finite (if s then - q else q) e)"

text \<open>\<open>float(i)\<close> for an integer: OverflowError when it does not fit a double.\<close>

definition float_of_int :: "int \<Rightarrow> pyexn + pyfloat" where
  "float_of_int i =
     (case to_double (i < 0) \<bar>i\<bar> 1 of
        Infinity s \<Rightarrow> Inl OverflowError
      | f \<Rightarrow> Inr f)"

text \<open>
  \<open>x / y\<close> on two floats: a zero divisor raises whatever the dividend; otherwise the
  exact quotient, rounded.
\<close>

fun float_truediv :: "pyfloat \<Rightarrow> pyfloat \<Rightarrow> pyexn + pyfloat" where
  "float_truediv x NegZero = Inl ZeroDivisionError"
| "float_truediv x NaN = Inr NaN"
| "float_truediv x (Infinity t) =
     (case x of
        NaN \<Rightarrow> Inr NaN
      | Infinity s \<Rightarrow> Inr NaN
      | _ \<Rightarrow> Inr (signed_zero (float_sign x \<noteq> t)))"
| "float_truediv x (Finite k g) =
     (if k = 0 then Inl ZeroDivisionError
      else case x of
        NaN \<Rightarrow> Inr NaN
      | Infinity s \<Rightarrow> Inr (Infinity (s \<noteq> (k < 0)))
      | NegZero \<Rightarrow> Inr (signed_zero (\<not> (k < 0)))
      | Finite m e \<Rightarrow>
          Inr (if g \<le> e then to_double ((m < 0) \<noteq> (k < 0)) (\<bar>m\<bar> * 2 ^ nat (e - g)) \<bar>k\<bar>
               else to_double ((m < 0) \<noteq> (k < 0)) \<bar>m\<bar> (\<bar>k\<bar> * 2 ^ nat (g - e))))"

text \<open>\<open>x >= 0\<close> on a float: false for NaN, true for both zeros.\<close>

fun float_ge_zero :: "pyfloat \<Rightarrow> bool" where
  "float_ge_zero (Finite m e) = (0 \<le> m)"
| "float_ge_zero NegZero = True"
| "float_ge_zero (Infinity s) = (\<not> s)"
| "float_ge_zero NaN = False"

text \<open>The literal \<open>1e9\<close>, and a decimal literal \<open>n / 10 ^ k\<close> as JSON parsing rounds it.\<close>

definition float_1e9 :: pyfloat where
  "float_1e9 = Finite 1000000000 0"


subsection \<open>Format specifications\<close>

definition digit_char :: "int \<Rightarrow> char" where
  "digit_char d = ''0123456789'' ! nat d"

text \<open>Decimal digits of a non-negative integer.\<close>

function digits :: "int \<Rightarrow> string" where
  "digits n = (if n < 10 then [digit_char n] else digits (n div 10) @ [digit_char (n mod 10)])"
  by pat_completeness auto
termination
  by (relation "measure nat") auto

declare digits.simps [simp del]

text \<open>The \<open>,\<close> option: a comma before every group of three digits, from the right.\<close>

fun group3 :: "string \<Rightarrow> string" where
  "group3 ds =
     (if length ds \<le> 3 then ds
      else group3 (take (length ds - 3) ds) @ CHR '','' # drop (length ds - 3) ds)"

declare group3.simps [simp del]

text \<open>
  The digits of \<open>format(x, ".pf")\<close> for the magnitude \<open>m * 2 ^ e\<close> (\<open>0 \<le> m\<close>): the
  exact value rounded half-even to \<open>p\<close> decimals, with the \<open>,\<close> option when \<open>grouped\<close>.
\<close>

definition fixed_digits :: "bool \<Rightarrow> nat \<Rightarrow> int \<Rightarrow> int \<Rightarrow> string" where
  "fixed_digits grouped p m e =
     (let q = (if 0 \<le> e then m * 2 ^ nat e * 10 ^ p
               else round_half_even (m * 10 ^ p) (2 ^ nat (- e)));
          ds = digits q;
          ds = replicate (Suc p - length ds) CHR ''0'' @ ds;
          ip = take (length ds - p) ds;
          fp = drop (length ds - p) ds
      in (if grouped then group3 ip else ip) @ (if p = 0 then [] else CHR ''.'' # fp))"

text \<open>\<open>format(x, ".pf")\<close> and \<open>format(x, ",.pf")\<close> on a float.\<close>

fun format_fixed :: "bool \<Rightarrow> nat \<Rightarrow> pyfloat \<Rightarrow> string" where
  "format_fixed grouped p NaN = ''nan''"
| "format_fixed grouped p (Infinity s) = (if s then ''-inf'' else ''inf'')"
| "format_fixed grouped p NegZero = ''-'' @ fixed_digits grouped p 0 0"
| "format_fixed grouped p (Finite m e) =
     (if m < 0 then ''-'' else []) @ fixed_digits grouped p \<bar>m\<bar> e"

text \<open>\<open>format(i, ",")\<close> on an integer.\<close>

definition format_int_grouped :: "int \<Rightarrow> string" where
  "format_int_grouped i = (if i < 0 then ''-'' else []) @ group3 (digits \<bar>i\<bar>)"

text \<open>\<open>str(i)\<close> on an integer.\<close>

definition str_int :: "int \<Rightarrow> string" where
  "str_int i = (if i < 0 then ''-'' else []) @ digits \<bar>i\<bar>"

text \<open>The float an \<open>int\<close>, \<open>bool\<close> or \<open>float\<close> operand is converted to.\<close>

fun as_float :: "json \<Rightarrow> pyexn + pyfloat" where
  "as_float (JFloat f) = Inr f"
| "as_float (JInt i) = float_of_int i"
| "as_float (JBool b) = float_of_int (if b then 1 else 0)"
| "as_float v = Inl TypeError"

text \<open>\<open>f"{x:.pf}"\<close> and \<open>f"{x:,.pf}"\<close> on a number.\<close>

definition format_f :: "bool \<Rightarrow> nat \<Rightarrow> json \<Rightarrow> pyexn + string" where
  "format_f grouped p x =
     (case as_float x of Inl err \<Rightarrow> Inl err | Inr f \<Rightarrow> Inr (format_fixed grouped p f))"

text \<open>\<open>x / 1e9\<close> on a number.\<close>

definition div_1e9 :: "json \<Rightarrow> pyexn + pyfloat" where
  "div_1e9 x = (case as_float x of Inl err \<Rightarrow> Inl err | Inr f \<Rightarrow> float_truediv f float_1e9)"

text \<open>\<open>x >= 0\<close> on a number.\<close>

fun ge_zero :: "json \<Rightarrow> bool" where
  "ge_zero (JFloat f) = float_ge_zero f"
| "ge_zero (JInt i) = (0 \<le> i)"
| "ge_zero (JBool b) = True"
| "ge_zero v = False"

text \<open>
  The parts of the interpreter that the bot reaches but that are not spelled out
  here are parameters: \<open>float.__format__\<close> for the format specifications other than
  the fixed-point ones (the empty one is \<open>str\<close>), \<open>repr\<close> of a list or a dict, and
  \<open>float\<close> on a string (\<open>None\<close> when it raises ValueError).
\<close>

record interp =
  format_float :: "string \<Rightarrow> pyfloat \<Rightarrow> string"
  repr_container :: "json \<Rightarrow> string"
  float_of_str :: "string \<Rightarrow> pyfloat option"

text \<open>\<open>f"{value}"\<close>, that is \<open>str(value)\<close>.\<close>

fun py_str :: "interp \<Rightarrow> json \<Rightarrow> string" where
  "py_str rt JNull = ''None''"
| "py_str rt (JBool b) = (if b then ''True'' else ''False'')"
| "py_str rt (JInt i) = str_int i"
| "py_str rt (JFloat f) = format_float rt [] f"
| "py_str rt (JStr s) = s"
| "py_str rt v = repr_container rt v"

text \<open>\<open>f"{value:,}"\<close>: a string refuses the \<open>,\<close> option.\<close>

fun format_comma :: "interp \<Rightarrow> json \<Rightarrow> pyexn + string" where
  "format_comma rt (JInt i) = Inr (format_int_grouped i)"
| "format_comma rt (JBool b) = Inr (format_int_grouped (if b then 1 else 0))"
| "format_comma rt (JFloat f) = Inr (format_float rt '','' f)"
| "format_comma rt (JStr s) = Inl ValueError"
| "format_comma rt v = Inl TypeError"

text \<open>\<open>float(value)\<close>.\<close>

fun py_float :: "interp \<Rightarrow> json \<Rightarrow> pyexn + pyfloat" where
  "py_float rt (JFloat f) = Inr f"
| "py_float rt (JInt i) = float_of_int i"
| "py_float rt (JBool b) = float_of_int (if b then 1 else 0)"
| "py_float rt (JStr s) = (case float_of_str rt s of None \<Rightarrow> Inl ValueError | Some f \<Rightarrow> Inr f)"
| "py_float rt v = Inl TypeError"

text \<open>Sequencing of steps that may raise.\<close>

definition and_then :: "pyexn + 'a \<Rightarrow> ('a \<Rightarrow> pyexn + 'b) \<Rightarrow> pyexn + 'b" where
  "and_then r f = (case r of Inl err \<Rightarrow> Inl err | Inr v \<Rightarrow> f v)"

section \<open>The data fetchers\<close>

text \<open>
  The network, as one cycle sees it: what a POST of a method and its parameters to
  the node returns, and what a GET of either endpoint returns. A reply carries the
  status and the value \<open>response.json()\<close> gives, \<open>None\<close> when that call raises.
\<close>

datatype http_reply = Transport_error | Reply nat "json option"

datatype endpoint = SUPPLY_URL | COINGECKO_URL

record session =
  post :: "string \<Rightarrow> json list \<Rightarrow> http_reply"
  get :: "endpoint \<Rightarrow> http_reply"

text \<open>The body of \<open>make_rpc_call\<close> inside its \<open>try\<close>.\<close>

definition rpc_request :: "session \<Rightarrow> string \<Rightarrow> json list \<Rightarrow> pyexn + json" where
  "rpc_request s method params =
     (case post s method params of
        Transport_error \<Rightarrow> Inl ClientError
      | Reply status body \<Rightarrow>
          (if status \<noteq> 200 then Inr JNull
           else (case body of
                   None \<Rightarrow> Inl DecodeError
                 | Some data \<Rightarrow> py_get data ''result'')))"

definition make_rpc_call :: "session \<Rightarrow> string \<Rightarrow> json list option \<Rightarrow> json" where
  "make_rpc_call s method params =
     (let params = (case params of None \<Rightarrow> [] | Some ps \<Rightarrow> ps)
      in (case rpc_request s method params of
            Inl err \<Rightarrow> JNull
          | Inr v \<Rightarrow> v))"

text \<open>The sections of \<open>update_stats_channels\<close> that fetch and format, in source order.\<close>

definition fetch_difficulty :: "session \<Rightarrow> json" where
  "fetch_difficulty s =
     py_or (make_rpc_call s ''getdifficulty'' (Some [JInt 0])) (JStr ''N/A'')"

definition format_hashrate :: "json \<Rightarrow> pyexn + string" where
  "format_hashrate hashrate_soterg =
     (if is_number hashrate_soterg
      then and_then (div_1e9 hashrate_soterg) (\<lambda>q. Inr (format_fixed True 3 q))
      else Inr ''N/A'')"

definition fetch_hashrate :: "session \<Rightarrow> pyexn + string" where
  "fetch_hashrate s =
     format_hashrate
       (make_rpc_call s ''getnetworkhashps'' (Some [JInt 0, JInt (- 1), JStr ''soterg'']))"

definition fetch_block_count :: "session \<Rightarrow> json" where
  "fetch_block_count s = py_or (make_rpc_call s ''getblockcount'' (Some [])) (JStr ''N/A'')"

definition format_supply :: "interp \<Rightarrow> json \<Rightarrow> pyexn + string" where
  "format_supply rt coinsupply =
     and_then (py_float rt coinsupply) (\<lambda>f.
     and_then (float_truediv f float_1e9) (\<lambda>q.
     Inr (format_fixed True 2 q @ ''B SOTER'')))"

definition supply_request :: "interp \<Rightarrow> session \<Rightarrow> pyexn + string" where
  "supply_request rt s =
     (case get s SUPPLY_URL of
        Transport_error \<Rightarrow> Inl ClientError
      | Reply status body \<Rightarrow>
          (case body of
             None \<Rightarrow> Inl DecodeError
           | Some supply_data \<Rightarrow>
               and_then (py_getitem supply_data ''coinsupply'') (format_supply rt)))"

definition fetch_supply :: "interp \<Rightarrow> session \<Rightarrow> string" where
  "fetch_supply rt s = (case supply_request rt s of Inl err \<Rightarrow> ''N/A'' | Inr supply \<Rightarrow> supply)"

definition up_triangle :: string where
  "up_triangle = [CHR 0xE2, CHR 0x96, CHR 0xB2]"

definition down_triangle :: string where
  "down_triangle = [CHR 0xE2, CHR 0x96, CHR 0xBC]"

definition format_price :: "json \<Rightarrow> json \<Rightarrow> pyexn + string" where
  "format_price current_price change_24h =
     and_then (if is_number current_price
               then and_then (format_f False 6 current_price) (\<lambda>p. Inr (''$'' @ p))
               else Inr ''N/A'') (\<lambda>price_core.
     if is_number change_24h
     then and_then (if ge_zero change_24h
                    then and_then (format_f False 2 change_24h)
                           (\<lambda>c. Inr (up_triangle @ '' +'' @ c @ ''%''))
                    else and_then (format_f False 2 change_24h)
                           (\<lambda>c. Inr (down_triangle @ '' '' @ c @ ''%''))) (\<lambda>arrow.
          Inr (price_core @ '' ('' @ arrow @ '' 24h)''))
     else Inr price_core)"

definition format_amount :: "json \<Rightarrow> pyexn + string" where
  "format_amount v = (if is_number v then format_f True 0 v else Inr ''N/A'')"

text \<open>\<open>(md.get(key) or {}).get("usd")\<close>.\<close>

definition usd_of :: "json \<Rightarrow> string \<Rightarrow> pyexn + json" where
  "usd_of md key = and_then (py_get md key) (\<lambda>v. py_get (py_or v (JDict [])) ''usd'')"

text \<open>\<open>data.get("market_data", {})\<close>.\<close>

fun market_data_of :: "json \<Rightarrow> pyexn + json" where
  "market_data_of (JDict kvs) =
     Inr (case map_of kvs ''market_data'' of None \<Rightarrow> JDict [] | Some md \<Rightarrow> md)"
| "market_data_of v = Inl AttributeError"

definition coingecko_request :: "session \<Rightarrow> pyexn + string \<times> string \<times> string" where
  "coingecko_request s =
     (case get s COINGECKO_URL of
        Transport_error \<Rightarrow> Inl ClientError
      | Reply status body \<Rightarrow>
          (case body of
             None \<Rightarrow> Inl DecodeError
           | Some data \<Rightarrow>
               and_then (market_data_of data) (\<lambda>md.
               and_then (usd_of md ''current_price'') (\<lambda>current_price.
               and_then (usd_of md ''total_volume'') (\<lambda>volume_24h.
               and_then (usd_of md ''market_cap'') (\<lambda>market_cap.
               and_then (py_get md ''price_change_percentage_24h'') (\<lambda>change_24h.
               and_then (format_price current_price change_24h) (\<lambda>price_display.
               and_then (format_amount volume_24h) (\<lambda>volume_display.
               and_then (format_amount market_cap) (\<lambda>market_cap_display.
               Inr (price_display, volume_display, market_cap_display)))))))))))"

definition fetch_coingecko :: "session \<Rightarrow> string \<times> string \<times> string" where
  "fetch_coingecko s =
     (case coingecko_request s of
        Inl err \<Rightarrow> (''N/A'', ''N/A'', ''N/A'')
      | Inr displays \<Rightarrow> displays)"

record stats =
  difficulty_soterg :: json
  hashrate_soterg :: string
  block_count :: json
  supply_display :: string
  price_display :: string
  volume_display :: string
  market_cap_display :: string

text \<open>
  Everything inside \<open>async with aiohttp.ClientSession()\<close>. Only the hashrate line can
  raise here: the supply and market-data sections have their own handlers.
\<close>

definition fetch_stats :: "interp \<Rightarrow> session \<Rightarrow> pyexn + stats" where
  "fetch_stats rt s =
     (let difficulty = fetch_difficulty s
      in and_then (fetch_hashrate s) (\<lambda>hashrate.
         let block = fetch_block_count s;
             supply = fetch_supply rt s;
             (price, volume, market_cap) = fetch_coingecko s
         in Inr \<lparr>difficulty_soterg = difficulty, hashrate_soterg = hashrate,
                 block_count = block, supply_display = supply, price_display = price,
                 volume_display = volume, market_cap_display = market_cap\<rparr>))"

section \<open>The guild and its channels\<close>

text \<open>
  A guild as the bot reads and changes it. A category is known by its name and a
  channel by its name, kind, parent category and the \<open>connect\<close> overwrite of the
  default role; the position of either in its list is its identity, so a category or
  channel object of the source is an index here. Channels are listed in display order
  and a new one comes last. Every call to the platform may fail: \<open>api_faults\<close> is the
  schedule of the outcomes of the calls still to come (\<open>True\<close>: this call raises),
  and a call past its end succeeds.
\<close>

datatype channel_kind = VoiceChannel | TextChannel | StageChannel

record channel =
  ch_name :: string
  ch_kind :: channel_kind
  ch_category :: "nat option"
  connect_denied :: bool

record guild =
  categories :: "string list"
  channels :: "channel list"
  member_count :: "int option"
  api_faults :: "bool list"

definition api_call :: "guild \<Rightarrow> bool \<times> guild" where
  "api_call g =
     (case api_faults g of
        [] \<Rightarrow> (False, g)
      | bad # rest \<Rightarrow> (bad, g\<lparr>api_faults := rest\<rparr>))"

definition create_category :: "guild \<Rightarrow> string \<Rightarrow> (pyexn + nat) \<times> guild" where
  "create_category g name =
     (let (bad, g) = api_call g
      in if bad then (Inl HTTPException, g)
         else (Inr (length (categories g)), g\<lparr>categories := categories g @ [name]\<rparr>))"

definition create_voice_channel :: "guild \<Rightarrow> nat \<Rightarrow> string \<Rightarrow> (pyexn + nat) \<times> guild" where
  "create_voice_channel g category name =
     (let (bad, g) = api_call g
      in if bad then (Inl HTTPException, g)
         else (Inr (length (channels g)),
               g\<lparr>channels := channels g @
                    [\<lparr>ch_name = name, ch_kind = VoiceChannel,
                      ch_category = Some category, connect_denied = False\<rparr>]\<rparr>))"

text \<open>\<open>channel.edit(name=...)\<close>.\<close>

definition edit_name :: "guild \<Rightarrow> nat \<Rightarrow> string \<Rightarrow> (pyexn + unit) \<times> guild" where
  "edit_name g channel name =
     (let (bad, g) = api_call g
      in if bad then (Inl HTTPException, g)
         else (Inr (),
               g\<lparr>channels := (channels g)[channel := (channels g ! channel)\<lparr>ch_name := name\<rparr>]\<rparr>))"

text \<open>\<open>channel.set_permissions(channel.guild.default_role, connect=False)\<close>.\<close>

definition set_permissions :: "guild \<Rightarrow> nat \<Rightarrow> (pyexn + unit) \<times> guild" where
  "set_permissions g channel =
     (let (bad, g) = api_call g
      in if bad then (Inl HTTPException, g)
         else (Inr (),
               g\<lparr>channels :=
                    (channels g)[channel := (channels g ! channel)\<lparr>connect_denied := True\<rparr>]\<rparr>))"

text \<open>\<open>category.voice_channels\<close>: the voice channels of the category, in order.\<close>

definition voice_channels :: "guild \<Rightarrow> nat \<Rightarrow> nat list" where
  "voice_channels g category =
     filter (\<lambda>i. ch_kind (channels g ! i) = VoiceChannel
                 \<and> ch_category (channels g ! i) = Some category)
       [0 ..< length (channels g)]"

text \<open>\<open>discord.utils.get(guild.categories, name=...)\<close>: the first with that name.\<close>

definition get_category :: "guild \<Rightarrow> string \<Rightarrow> nat option" where
  "get_category g name = find (\<lambda>i. categories g ! i = name) [0 ..< length (categories g)]"

section \<open>Channel helpers\<close>

definition CHANNEL_KEYS :: "(string \<times> string) list" where
  "CHANNEL_KEYS =
     [(''members'', ''Members:''),
      (''difficulty_soterg'', ''Difficulty (SoterG):''),
      (''hashrate_soterg'', ''Hashrate (SoterG): GH/s''),
      (''block'', ''Block:''),
      (''supply'', ''Supply:''),
      (''price'', ''Price:''),
      (''volume_24h'', ''24h Volume: $''),
      (''market_cap'', ''Market Cap: $'')]"

text \<open>
  \<open>str.lower\<close>, \<open>str.strip\<close> and \<open>str.startswith\<close>. On ASCII text they are Python's;
  the bytes of a code point beyond ASCII are left as they are.
\<close>

definition lower_char :: "char \<Rightarrow> char" where
  "lower_char c =
     (case map_of (zip ''ABCDEFGHIJKLMNOPQRSTUVWXYZ'' ''abcdefghijklmnopqrstuvwxyz'') c of
        None \<Rightarrow> c
      | Some l \<Rightarrow> l)"

definition lower :: "string \<Rightarrow> string" where
  "lower s = map lower_char s"

definition is_space :: "char \<Rightarrow> bool" where
  "is_space c =
     (c \<in> set [CHR 0x09, CHR 0x0A, CHR 0x0B, CHR 0x0C, CHR 0x0D,
               CHR 0x1C, CHR 0x1D, CHR 0x1E, CHR 0x1F, CHR 0x20])"

definition strip :: "string \<Rightarrow> string" where
  "strip s = rev (dropWhile is_space (rev (dropWhile is_space s)))"

fun startswith :: "string \<Rightarrow> string \<Rightarrow> bool" where
  "startswith s [] = True"
| "startswith [] (p # ps) = False"
| "startswith (c # s) (p # ps) = (c = p \<and> startswith s ps)"

definition norm :: "string \<Rightarrow> string" where
  "norm s = strip (filter (\<lambda>c. c \<noteq> CHR '' '') (lower s))"

definition get_or_create_channel :: "guild \<Rightarrow> nat \<Rightarrow> string \<Rightarrow> (pyexn + nat) \<times> guild" where
  "get_or_create_channel g category channel_key =
     (case map_of CHANNEL_KEYS channel_key of
        None \<Rightarrow> (Inl KeyError, g)
      | Some target \<Rightarrow>
          let target_norm = norm target
          in (case find (\<lambda>ch. startswith (norm (ch_name (channels g ! ch))) target_norm)
                    (voice_channels g category) of
                Some ch \<Rightarrow> (Inr ch, g)
              | None \<Rightarrow> create_voice_channel g category target))"

text \<open>
  The resources of a key: the voice channels of the category that
  \<open>get_or_create_channel\<close> accepts for the key, in the order it tries them.
\<close>

definition key_channels :: "guild \<Rightarrow> nat \<Rightarrow> string \<Rightarrow> nat list" where
  "key_channels g category channel_key =
     (case map_of CHANNEL_KEYS channel_key of
        None \<Rightarrow> []
      | Some target \<Rightarrow>
          filter (\<lambda>ch. startswith (norm (ch_name (channels g ! ch))) (norm target))
            (voice_channels g category))"

definition set_channel_private :: "guild \<Rightarrow> nat \<Rightarrow> nat \<Rightarrow> guild" where
  "set_channel_private g category channel =
     (if channel < length (channels g)
         \<and> ch_kind (channels g ! channel) = VoiceChannel
         \<and> ch_category (channels g ! channel) = Some category
      then snd (set_permissions g channel)
      else g)"

definition update_channel :: "interp \<Rightarrow> guild \<Rightarrow> nat \<Rightarrow> string \<Rightarrow> json \<Rightarrow> guild" where
  "update_channel rt g category key v =
     (case get_or_create_channel g category key of
        (Inl err, g) \<Rightarrow> g
      | (Inr channel, g) \<Rightarrow>
          (case map_of CHANNEL_KEYS key of
             None \<Rightarrow> g
           | Some label \<Rightarrow> snd (edit_name g channel (label @ '' '' @ py_str rt v))))"

section \<open>The stats updater\<close>

definition category_name :: string where
  "category_name = ''Soteria Server Stats''"

text \<open>\<open>guild.member_count or "N/A"\<close>.\<close>

definition member_count_or_na :: "guild \<Rightarrow> json" where
  "member_count_or_na g =
     py_or (case member_count g of None \<Rightarrow> JNull | Some n \<Rightarrow> JInt n) (JStr ''N/A'')"

text \<open>The lookup of the category and its creation when there is none.\<close>

definition resolve_category :: "guild \<Rightarrow> (pyexn + nat) \<times> guild" where
  "resolve_category g =
     (case get_category g category_name of
        None \<Rightarrow> create_category g category_name
      | Some category \<Rightarrow> (Inr category, g))"

text \<open>The eight updates, in source order.\<close>

definition update_channels :: "interp \<Rightarrow> guild \<Rightarrow> nat \<Rightarrow> string \<Rightarrow> stats \<Rightarrow> guild" where
  "update_channels rt g category members st =
     (let g = update_channel rt g category ''members'' (JStr members);
          g = update_channel rt g category ''difficulty_soterg'' (difficulty_soterg st);
          g = update_channel rt g category ''hashrate_soterg'' (JStr (hashrate_soterg st));
          g = update_channel rt g category ''block'' (block_count st);
          g = update_channel rt g category ''supply'' (JStr (supply_display st));
          g = update_channel rt g category ''price'' (JStr (price_display st));
          g = update_channel rt g category ''volume_24h'' (JStr (volume_display st));
          g = update_channel rt g category ''market_cap'' (JStr (market_cap_display st))
      in g)"

text \<open>The loop over \<open>category.voice_channels\<close> that locks them.\<close>

definition lock_channels :: "guild \<Rightarrow> nat \<Rightarrow> guild" where
  "lock_channels g category =
     fold (\<lambda>ch g. set_channel_private g category ch) (voice_channels g category) g"

text \<open>
  One cycle for one guild. An exception that reaches the outer handler ends the cycle
  where it is: the guild is returned as the calls made so far have left it.
\<close>

definition update_stats_channels :: "interp \<Rightarrow> session \<Rightarrow> guild \<Rightarrow> guild" where
  "update_stats_channels rt s g =
     (case fetch_stats rt s of
        Inl err \<Rightarrow> g
      | Inr st \<Rightarrow>
          let member_count = member_count_or_na g
          in (case resolve_category g of
                (Inl err, g) \<Rightarrow> g
              | (Inr category, g) \<Rightarrow>
                  (case format_comma rt member_count of
                     Inl err \<Rightarrow> g
                   | Inr members \<Rightarrow>
                       let g = update_channels rt g category members st
                       in lock_channels g category)))"

section \<open>Example inputs\<close>

text \<open>
  A network that answers the three RPC methods, the supply endpoint and the
  market-data endpoint with the five given replies.
\<close>

definition example_session ::
  "http_reply \<Rightarrow> http_reply \<Rightarrow> http_reply \<Rightarrow> http_reply \<Rightarrow> http_reply \<Rightarrow> session" where
  "example_session difficulty hashrate block coinsupply market =
     \<lparr>post = (\<lambda>method params.
               if method = ''getdifficulty'' then difficulty
               else if method = ''getnetworkhashps'' then hashrate
               else block),
      get = (\<lambda>url. case url of SUPPLY_URL \<Rightarrow> coinsupply | COINGECKO_URL \<Rightarrow> market)\<rparr>"

text \<open>A successful reply whose envelope carries the given result.\<close>

definition rpc_result :: "json \<Rightarrow> http_reply" where
  "rpc_result v = Reply 200 (Some (JDict [(''result'', v)]))"

text \<open>A market-data reply with the given price and 24h change.\<close>

definition market_reply :: "json \<Rightarrow> json \<Rightarrow> http_reply" where
  "market_reply price change =
     Reply 200 (Some (JDict [(''market_data'',
       JDict [(''current_price'', JDict [(''usd'', price)]),
              (''price_change_percentage_24h'', change)])]))"

text \<open>An interpreter whose unmodelled parts answer with fixed marks.\<close>

definition example_interp :: interp where
  "example_interp =
     \<lparr>format_float = (\<lambda>spec f. ''<float>''),
      repr_container = (\<lambda>v. ''<container>''),
      float_of_str = (\<lambda>s. None)\<rparr>"

text \<open>
  A guild that has the category already: a text channel outside it, and inside it a
  members channel left by an earlier cycle (renamed by hand to upper case), a stage
  channel and a voice channel that belongs to no key.
\<close>

definition example_guild :: guild where
  "example_guild =
     \<lparr>categories = [''General'', ''Soteria Server Stats''],
      channels =
        [\<lparr>ch_name = ''chat'', ch_kind = TextChannel,
          ch_category = Some 0, connect_denied = False\<rparr>,
         \<lparr>ch_name = ''MEMBERS: 12'', ch_kind = VoiceChannel,
          ch_category = Some 1, connect_denied = False\<rparr>,
         \<lparr>ch_name = ''Block: stage'', ch_kind = StageChannel,
          ch_category = Some 1, connect_denied = False\<rparr>,
         \<lparr>ch_name = ''Lounge'', ch_kind = VoiceChannel,
          ch_category = Some 1, connect_denied = False\<rparr>,
         \<lparr>ch_name = ''Price: elsewhere'', ch_kind = VoiceChannel,
          ch_category = Some 0, connect_denied = False\<rparr>],
      member_count = Some 1234,
      api_faults = []\<rparr>"

section \<open>Properties of the fetchers\<close>

lemma and_then_Inr [simp]: "and_then (Inr v) f = f v"
  by (simp add: and_then_def)

lemma and_then_Inl [simp]: "and_then (Inl e) f = Inl e"
  by (simp add: and_then_def)

lemma py_get_not_dict: "\<forall>kvs. data \<noteq> JDict kvs \<Longrightarrow> py_get data k = Inl AttributeError"
  by (cases data) auto

lemma example_session_post [simp]:
  "post (example_session d h b c m) ''getdifficulty'' ps = d"
  "post (example_session d h b c m) ''getnetworkhashps'' ps = h"
  "post (example_session d h b c m) ''getblockcount'' ps = b"
  by (simp_all add: example_session_def)

lemma example_session_get [simp]:
  "get (example_session d h b c m) SUPPLY_URL = c"
  "get (example_session d h b c m) COINGECKO_URL = m"
  by (simp_all add: example_session_def)

lemma make_rpc_call_result [simp]:
  "post s method ps = rpc_result v \<Longrightarrow> make_rpc_call s method (Some ps) = v"
  by (simp add: make_rpc_call_def rpc_request_def rpc_result_def)

text \<open>
  Claim C6. \<open>make_rpc_call\<close> always returns a value: the \<open>result\<close> field of the
  envelope when the reply has status 200 and a JSON object as body (\<open>None\<close> when the
  object has no such field), and \<open>None\<close> on any other status, on a transport error,
  on a body that is not JSON and on a body that is not an object. The exceptions of
  \<open>rpc_request\<close> stop at the handler: the function has no exceptional result.
\<close>

theorem make_rpc_call_total:
  fixes s :: session
  defines "sent ps \<equiv> (case ps of None \<Rightarrow> [] | Some xs \<Rightarrow> xs)"
  shows "(post s method (sent params) = Reply 200 (Some (JDict kvs)) \<longrightarrow>
            make_rpc_call s method params
              = (case map_of kvs ''result'' of None \<Rightarrow> JNull | Some v \<Rightarrow> v))
       \<and> (post s method (sent params) = Reply status body \<and> status \<noteq> 200 \<longrightarrow>
            make_rpc_call s method params = JNull)
       \<and> (post s method (sent params) = Transport_error \<longrightarrow>
            make_rpc_call s method params = JNull)
       \<and> (post s method (sent params) = Reply 200 None \<longrightarrow>
            make_rpc_call s method params = JNull)
       \<and> (post s method (sent params) = Reply 200 (Some data) \<and> (\<forall>kvs. data \<noteq> JDict kvs) \<longrightarrow>
            make_rpc_call s method params = JNull)"
  by (auto simp: make_rpc_call_def rpc_request_def sent_def py_get_not_dict)

theorem make_rpc_call_total_witness:
  "make_rpc_call (example_session Transport_error Transport_error
       (Reply 200 (Some (JDict [(''result'', JInt 12345)]))) Transport_error Transport_error)
     ''getblockcount'' None = JInt 12345
   \<and> make_rpc_call (example_session Transport_error Transport_error
       (Reply 200 (Some (JDict [(''error'', JStr ''busy'')]))) Transport_error Transport_error)
     ''getblockcount'' None = JNull
   \<and> make_rpc_call (example_session Transport_error Transport_error
       (Reply 503 (Some (JDict [(''result'', JInt 12345)]))) Transport_error Transport_error)
     ''getblockcount'' None = JNull
   \<and> make_rpc_call (example_session Transport_error Transport_error
       Transport_error Transport_error Transport_error)
     ''getblockcount'' None = JNull
   \<and> make_rpc_call (example_session Transport_error Transport_error
       (Reply 200 None) Transport_error Transport_error)
     ''getblockcount'' None = JNull
   \<and> make_rpc_call (example_session Transport_error Transport_error
       (Reply 200 (Some (JList [JInt 12345]))) Transport_error Transport_error)
     ''getblockcount'' None = JNull"
  using
    make_rpc_call_total [of "example_session Transport_error Transport_error
       (Reply 200 (Some (JDict [(''result'', JInt 12345)]))) Transport_error Transport_error"
       "''getblockcount''" None "[(''result'', JInt 12345)]" 200 None JNull]
    make_rpc_call_total [of "example_session Transport_error Transport_error
       (Reply 200 (Some (JDict [(''error'', JStr ''busy'')]))) Transport_error Transport_error"
       "''getblockcount''" None "[(''error'', JStr ''busy'')]" 200 None JNull]
    make_rpc_call_total [of "example_session Transport_error Transport_error
       (Reply 503 (Some (JDict [(''result'', JInt 12345)]))) Transport_error Transport_error"
       "''getblockcount''" None "[]" 503 "Some (JDict [(''result'', JInt 12345)])" JNull]
    make_rpc_call_total [of "example_session Transport_error Transport_error
       Transport_error Transport_error Transport_error"
       "''getblockcount''" None "[]" 200 None JNull]
    make_rpc_call_total [of "example_session Transport_error Transport_error
       (Reply 200 None) Transport_error Transport_error"
       "''getblockcount''" None "[]" 200 None JNull]
    make_rpc_call_total [of "example_session Transport_error Transport_error
       (Reply 200 (Some (JList [JInt 12345]))) Transport_error Transport_error"
       "''getblockcount''" None "[]" 200 None "JList [JInt 12345]"]
  by simp

text \<open>
  Claim C10. When the RPC call for the difficulty or for the block count returns a
  number that is falsy, such as the integer 0, the value displayed for that field is
  the sentinel \<open>N/A\<close>, not the number.
\<close>

theorem falsy_number_shows_sentinel:
  "(is_number v \<and> \<not> truthy v \<and> make_rpc_call s ''getdifficulty'' (Some [JInt 0]) = v
      \<longrightarrow> fetch_difficulty s = JStr ''N/A'')
   \<and> (is_number v \<and> \<not> truthy v \<and> make_rpc_call s ''getblockcount'' (Some []) = v
      \<longrightarrow> fetch_block_count s = JStr ''N/A'')"
  by (simp add: fetch_difficulty_def fetch_block_count_def py_or_def)

theorem falsy_number_shows_sentinel_witness:
  "is_number (JInt 0)
   \<and> make_rpc_call (example_session (rpc_result (JInt 0)) Transport_error (rpc_result (JInt 0))
        Transport_error Transport_error) ''getdifficulty'' (Some [JInt 0]) = JInt 0
   \<and> fetch_difficulty (example_session (rpc_result (JInt 0)) Transport_error (rpc_result (JInt 0))
        Transport_error Transport_error) = JStr ''N/A''
   \<and> make_rpc_call (example_session (rpc_result (JInt 0)) Transport_error (rpc_result (JInt 0))
        Transport_error Transport_error) ''getblockcount'' (Some []) = JInt 0
   \<and> fetch_block_count (example_session (rpc_result (JInt 0)) Transport_error (rpc_result (JInt 0))
        Transport_error Transport_error) = JStr ''N/A''"
  using falsy_number_shows_sentinel [of "JInt 0"
      "example_session (rpc_result (JInt 0)) Transport_error (rpc_result (JInt 0))
        Transport_error Transport_error"]
  by simp

text \<open>
  Claim C1 does not hold as stated: a result that is a non-empty string is not a
  number, and the difficulty and the block count display it as it is.
\<close>

theorem string_result_passes_through:
  "\<not> is_number (JStr ''unknown'')
   \<and> make_rpc_call (example_session (rpc_result (JStr ''unknown'')) Transport_error
        (rpc_result (JStr ''unknown'')) Transport_error Transport_error)
        ''getdifficulty'' (Some [JInt 0]) = JStr ''unknown''
   \<and> fetch_difficulty (example_session (rpc_result (JStr ''unknown'')) Transport_error
        (rpc_result (JStr ''unknown'')) Transport_error Transport_error) \<noteq> JStr ''N/A''
   \<and> fetch_block_count (example_session (rpc_result (JStr ''unknown'')) Transport_error
        (rpc_result (JStr ''unknown'')) Transport_error Transport_error) \<noteq> JStr ''N/A''"
  by (simp add: fetch_difficulty_def fetch_block_count_def py_or_def)

text \<open>
  Claim C1, amended. The difficulty and the block count display \<open>N/A\<close> when the RPC
  result is missing or falsy, and the result itself otherwise; the hashrate displays
  \<open>N/A\<close> whenever the result is not an \<open>int\<close>, a \<open>float\<close> or a \<open>bool\<close>.
\<close>

theorem rpc_display_values:
  "(\<not> truthy (make_rpc_call s ''getdifficulty'' (Some [JInt 0]))
      \<longrightarrow> fetch_difficulty s = JStr ''N/A'')
   \<and> (truthy (make_rpc_call s ''getdifficulty'' (Some [JInt 0]))
      \<longrightarrow> fetch_difficulty s = make_rpc_call s ''getdifficulty'' (Some [JInt 0]))
   \<and> (\<not> truthy (make_rpc_call s ''getblockcount'' (Some []))
      \<longrightarrow> fetch_block_count s = JStr ''N/A'')
   \<and> (truthy (make_rpc_call s ''getblockcount'' (Some []))
      \<longrightarrow> fetch_block_count s = make_rpc_call s ''getblockcount'' (Some []))
   \<and> (\<not> is_number (make_rpc_call s ''getnetworkhashps'' (Some [JInt 0, JInt (- 1), JStr ''soterg'']))
      \<longrightarrow> fetch_hashrate s = Inr ''N/A'')"
  by (simp add: fetch_difficulty_def fetch_block_count_def fetch_hashrate_def
      format_hashrate_def py_or_def)

theorem rpc_display_values_witness:
  "fetch_difficulty (example_session Transport_error (rpc_result (JStr ''unknown''))
        (rpc_result (JStr ''unknown'')) Transport_error Transport_error) = JStr ''N/A''
   \<and> fetch_block_count (example_session Transport_error (rpc_result (JStr ''unknown''))
        (rpc_result (JStr ''unknown'')) Transport_error Transport_error) = JStr ''unknown''
   \<and> fetch_hashrate (example_session Transport_error (rpc_result (JStr ''unknown''))
        (rpc_result (JStr ''unknown'')) Transport_error Transport_error) = Inr ''N/A''
   \<and> fetch_difficulty (example_session (rpc_result (JInt 7)) Transport_error
        Transport_error Transport_error Transport_error) = JInt 7
   \<and> fetch_block_count (example_session (rpc_result (JInt 7)) Transport_error
        Transport_error Transport_error Transport_error) = JStr ''N/A''"
  using
    rpc_display_values [of "example_session Transport_error (rpc_result (JStr ''unknown''))
        (rpc_result (JStr ''unknown'')) Transport_error Transport_error"]
    rpc_display_values [of "example_session (rpc_result (JInt 7)) Transport_error
        Transport_error Transport_error Transport_error"]
  by (simp add: make_rpc_call_def rpc_request_def rpc_result_def)












lemma fetch_coingecko_cong:
  "get s1 COINGECKO_URL = get s2 COINGECKO_URL \<Longrightarrow> fetch_coingecko s1 = fetch_coingecko s2"
  by (simp only: fetch_coingecko_def coingecko_request_def)

lemma fetch_hashrate_cong: "post s1 = post s2 \<Longrightarrow> fetch_hashrate s1 = fetch_hashrate s2"
  by (simp only: fetch_hashrate_def make_rpc_call_def rpc_request_def)

lemma fetch_stats_Inl: "fetch_hashrate s = Inl err \<Longrightarrow> fetch_stats rt s = Inl err"
  by (simp add: fetch_stats_def)

lemma fetch_stats_Inr:
  "fetch_hashrate s = Inr hr \<Longrightarrow>
   fetch_stats rt s =
     Inr \<lparr>difficulty_soterg = fetch_difficulty s, hashrate_soterg = hr,
          block_count = fetch_block_count s, supply_display = fetch_supply rt s,
          price_display = fst (fetch_coingecko s),
          volume_display = fst (snd (fetch_coingecko s)),
          market_cap_display = snd (snd (fetch_coingecko s))\<rparr>"
  by (simp add: fetch_stats_def case_prod_beta)


text \<open>
  Claim C7. Two cycles whose networks answer the RPC calls and the market-data
  request alike, whatever each answers to the supply request, format the same price,
  24h volume and market cap.
\<close>

theorem supply_failure_leaves_market_data:
  "(post s1 = post s2 \<and> get s1 COINGECKO_URL = get s2 COINGECKO_URL \<longrightarrow>
      fetch_coingecko s1 = fetch_coingecko s2)
   \<and> (post s1 = post s2 \<and> get s1 COINGECKO_URL = get s2 COINGECKO_URL
        \<and> fetch_stats rt s1 = Inr st1 \<longrightarrow>
      (\<exists>st2. fetch_stats rt s2 = Inr st2
         \<and> price_display st2 = price_display st1
         \<and> volume_display st2 = volume_display st1
         \<and> market_cap_display st2 = market_cap_display st1))"
proof (intro conjI impI; elim conjE)
  assume "get s1 COINGECKO_URL = get s2 COINGECKO_URL"
  then show "fetch_coingecko s1 = fetch_coingecko s2"
    by (rule fetch_coingecko_cong)
next
  let ?stats = "\<lambda>s hr.
     \<lparr>difficulty_soterg = fetch_difficulty s, hashrate_soterg = hr,
      block_count = fetch_block_count s, supply_display = fetch_supply rt s,
      price_display = fst (fetch_coingecko s),
      volume_display = fst (snd (fetch_coingecko s)),
      market_cap_display = snd (snd (fetch_coingecko s))\<rparr>"
  assume p: "post s1 = post s2"
    and g: "get s1 COINGECKO_URL = get s2 COINGECKO_URL"
    and st: "fetch_stats rt s1 = Inr st1"
  have h: "fetch_hashrate s1 = fetch_hashrate s2"
    using p by (rule fetch_hashrate_cong)
  have m: "fetch_coingecko s1 = fetch_coingecko s2"
    using g by (rule fetch_coingecko_cong)
  obtain hr where hr: "fetch_hashrate s1 = Inr hr"
  proof (cases "fetch_hashrate s1")
    case (Inl err)
    from fetch_stats_Inl [OF Inl, of rt] st show ?thesis
      by simp
  next
    case (Inr hr)
    then show ?thesis
      by (rule that)
  qed
  have st1: "st1 = ?stats s1 hr"
    using fetch_stats_Inr [OF hr, of rt] st by simp
  have "fetch_hashrate s2 = Inr hr"
    using h hr by simp
  then have st2: "fetch_stats rt s2 = Inr (?stats s2 hr)"
    by (rule fetch_stats_Inr)
  show "\<exists>st2. fetch_stats rt s2 = Inr st2
         \<and> price_display st2 = price_display st1
         \<and> volume_display st2 = volume_display st1
         \<and> market_cap_display st2 = market_cap_display st1"
    by (rule exI [of _ "?stats s2 hr"]) (simp add: st1 st2 m)
qed

theorem supply_failure_leaves_market_data_witness:
  "fetch_supply example_interp
     (example_session Transport_error Transport_error Transport_error
        (Reply 200 (Some (JDict [(''coinsupply'', JInt 2500000000000)])))
        (market_reply (JInt 3) JNull))
     = ''2,500.00B SOTER''
   \<and> fetch_supply example_interp
     (example_session Transport_error Transport_error Transport_error
        Transport_error (market_reply (JInt 3) JNull)) = ''N/A''
   \<and> fetch_coingecko
     (example_session Transport_error Transport_error Transport_error
        (Reply 200 (Some (JDict [(''coinsupply'', JInt 2500000000000)])))
        (market_reply (JInt 3) JNull))
     = fetch_coingecko
     (example_session Transport_error Transport_error Transport_error
        Transport_error (market_reply (JInt 3) JNull))
   \<and> fetch_coingecko
     (example_session Transport_error Transport_error Transport_error
        Transport_error (market_reply (JInt 3) JNull)) = (''$3.000000'', ''N/A'', ''N/A'')"
proof -
  have a: "fetch_supply example_interp
     (example_session Transport_error Transport_error Transport_error
        (Reply 200 (Some (JDict [(''coinsupply'', JInt 2500000000000)])))
        (market_reply (JInt 3) JNull))
     = ''2,500.00B SOTER''"
    by code_simp
  have b: "fetch_supply example_interp
     (example_session Transport_error Transport_error Transport_error
        Transport_error (market_reply (JInt 3) JNull)) = ''N/A''"
    by code_simp
  have c: "fetch_coingecko
     (example_session Transport_error Transport_error Transport_error
        Transport_error (market_reply (JInt 3) JNull)) = (''$3.000000'', ''N/A'', ''N/A'')"
    by code_simp
  show ?thesis
    using
      supply_failure_leaves_market_data [of
        "example_session Transport_error Transport_error Transport_error
           (Reply 200 (Some (JDict [(''coinsupply'', JInt 2500000000000)])))
           (market_reply (JInt 3) JNull)"
        "example_session Transport_error Transport_error Transport_error
           Transport_error (market_reply (JInt 3) JNull)"]
      a b c
    by (simp add: example_session_def)
qed


section \<open>Properties of the reconciler\<close>

lemma api_call_no_faults [simp]: "api_faults g = [] \<Longrightarrow> api_call g = (False, g)"
  by (simp add: api_call_def)

lemma categories_api_call [simp]: "categories (snd (api_call g)) = categories g"
  by (simp add: api_call_def split: list.splits)

lemma channels_api_call [simp]: "channels (snd (api_call g)) = channels g"
  by (simp add: api_call_def split: list.splits)

lemma member_count_api_call [simp]: "member_count (snd (api_call g)) = member_count g"
  by (simp add: api_call_def split: list.splits)

lemma categories_create_voice_channel [simp]:
  "categories (snd (create_voice_channel g category name)) = categories g"
  by (simp add: create_voice_channel_def case_prod_beta)

lemma categories_edit_name [simp]: "categories (snd (edit_name g ch name)) = categories g"
  by (simp add: edit_name_def case_prod_beta)

lemma categories_set_permissions [simp]: "categories (snd (set_permissions g ch)) = categories g"
  by (simp add: set_permissions_def case_prod_beta)

lemma categories_get_or_create_channel [simp]:
  "categories (snd (get_or_create_channel g category key)) = categories g"
  by (simp add: get_or_create_channel_def split: option.splits)

lemma categories_update_channel [simp]:
  "categories (update_channel rt g category key v) = categories g"
proof (cases "get_or_create_channel g category key")
  case (Pair r g1)
  with categories_get_or_create_channel [of g category key] have "categories g1 = categories g"
    by simp
  with Pair show ?thesis
    by (cases r) (simp_all add: update_channel_def split: option.splits)
qed

lemma categories_update_channels [simp]:
  "categories (update_channels rt g category members st) = categories g"
  by (simp add: update_channels_def)

lemma categories_set_channel_private [simp]:
  "categories (set_channel_private g category ch) = categories g"
  by (simp add: set_channel_private_def)

lemma categories_fold_private [simp]:
  "categories (fold (\<lambda>ch g. set_channel_private g category ch) chs g) = categories g"
  by (induction chs arbitrary: g) simp_all

lemma categories_lock_channels [simp]: "categories (lock_channels g category) = categories g"
  by (simp add: lock_channels_def)

lemma channels_create_category [simp]: "channels (snd (create_category g name)) = channels g"
  by (simp add: create_category_def case_prod_beta)

lemma channels_resolve_category [simp]: "channels (snd (resolve_category g)) = channels g"
  by (simp add: resolve_category_def split: option.splits)

lemma resolve_category_found:
  "get_category g category_name = Some c \<Longrightarrow> resolve_category g = (Inr c, g)"
  by (simp add: resolve_category_def)

lemma categories_resolve_category:
  "categories (snd (resolve_category g)) =
     (if get_category g category_name = None \<and> fst (resolve_category g) \<noteq> Inl HTTPException
      then categories g @ [category_name] else categories g)"
  by (auto simp: resolve_category_def create_category_def case_prod_beta split: option.splits)

lemma categories_update_stats_channels:
  "categories (update_stats_channels rt s g) = categories (snd (resolve_category g))
   \<or> categories (update_stats_channels rt s g) = categories g"
  by (cases "resolve_category g")
    (auto simp: update_stats_channels_def split: sum.splits)

lemma startswith_append [simp]: "startswith (p @ w) p"
  by (induction p) simp_all

lemma startswith_iff: "startswith s p \<longleftrightarrow> (\<exists>w. s = p @ w)"
  by (induction s p rule: startswith.induct) auto

lemma strip_unchanged:
  assumes "xs \<noteq> []" "\<not> is_space (hd xs)" "\<not> is_space (last xs)"
  shows "strip xs = xs"
proof -
  from assms have keep_front: "dropWhile is_space xs = xs"
    by (simp add: dropWhile_eq_self_iff)
  from assms have keep_end: "dropWhile is_space (rev xs) = rev xs"
    by (simp add: dropWhile_eq_self_iff hd_rev)
  show ?thesis
    by (simp add: strip_def keep_front keep_end)
qed

lemma strip_keeps_prefix:
  assumes "xs \<noteq> []" "\<not> is_space (hd xs)" "\<not> is_space (last xs)"
  shows "\<exists>w. strip (xs @ ys) = xs @ w"
proof -
  from assms have keep_front: "dropWhile is_space (xs @ ys) = xs @ ys"
    by (cases xs) simp_all
  from assms have keep_end: "dropWhile is_space (rev xs) = rev xs"
    by (simp add: dropWhile_eq_self_iff hd_rev)
  have "\<exists>z. dropWhile is_space (rev ys @ rev xs) = z @ rev xs"
  proof (cases "\<forall>y \<in> set (rev ys). is_space y")
    case True
    then have "dropWhile is_space (rev ys @ rev xs) = dropWhile is_space (rev xs)"
      by (intro dropWhile_append2) simp
    with keep_end show ?thesis
      by simp
  next
    case False
    then obtain y where "y \<in> set (rev ys)" "\<not> is_space y"
      by blast
    then have "dropWhile is_space (rev ys @ rev xs) = dropWhile is_space (rev ys) @ rev xs"
      by (rule dropWhile_append1)
    then show ?thesis
      by blast
  qed
  then obtain z where "dropWhile is_space (rev ys @ rev xs) = z @ rev xs"
    by blast
  with keep_front have "strip (xs @ ys) = xs @ rev z"
    by (simp add: strip_def)
  then show ?thesis
    by blast
qed

lemma norm_keeps_prefix:
  assumes "filter (\<lambda>c. c \<noteq> CHR '' '') (lower label) = xs"
    and "xs \<noteq> []" "\<not> is_space (hd xs)" "\<not> is_space (last xs)"
  shows "startswith (norm (label @ rest)) (norm label)"
proof -
  from assms have "norm label = xs"
    by (simp add: norm_def strip_unchanged)
  moreover from assms(1) have "norm (label @ rest)
      = strip (xs @ filter (\<lambda>c. c \<noteq> CHR '' '') (lower rest))"
    by (simp add: norm_def lower_def)
  moreover from assms obtain w where
    "strip (xs @ filter (\<lambda>c. c \<noteq> CHR '' '') (lower rest)) = xs @ w"
    using strip_keeps_prefix by blast
  ultimately show ?thesis
    by simp
qed

lemma labels_survive_norm:
  "list_all (\<lambda>(key, label).
      filter (\<lambda>c. c \<noteq> CHR '' '') (lower label) \<noteq> []
      \<and> \<not> is_space (hd (filter (\<lambda>c. c \<noteq> CHR '' '') (lower label)))
      \<and> \<not> is_space (last (filter (\<lambda>c. c \<noteq> CHR '' '') (lower label)))) CHANNEL_KEYS"
  by code_simp

lemma renamed_channel_matches:
  assumes "map_of CHANNEL_KEYS key = Some label"
  shows "startswith (norm (label @ rest)) (norm label)"
proof -
  from assms have "(key, label) \<in> set CHANNEL_KEYS"
    by (rule map_of_SomeD)
  with labels_survive_norm have
    "filter (\<lambda>c. c \<noteq> CHR '' '') (lower label) \<noteq> []
      \<and> \<not> is_space (hd (filter (\<lambda>c. c \<noteq> CHR '' '') (lower label)))
      \<and> \<not> is_space (last (filter (\<lambda>c. c \<noteq> CHR '' '') (lower label)))"
    unfolding list_all_iff by fast
  then show ?thesis
    by (intro norm_keeps_prefix [OF refl]) simp_all
qed

lemma find_filter: "find P (filter Q xs) = find (\<lambda>x. Q x \<and> P x) xs"
  by (induction xs) simp_all

lemma find_upt_Some: "find R [0 ..< n] = Some i \<longleftrightarrow> i < n \<and> R i \<and> (\<forall>j < i. \<not> R j)"
  by (auto simp: find_Some_iff)

lemma find_upt_None: "find R [0 ..< n] = None \<longleftrightarrow> (\<forall>j < n. \<not> R j)"
  by (auto simp: find_None_iff)

lemma find_channel_Some:
  "find (\<lambda>ch. startswith (norm (ch_name (channels g ! ch))) t) (voice_channels g category) = Some i
   \<longleftrightarrow> i < length (channels g)
       \<and> (ch_kind (channels g ! i) = VoiceChannel \<and> ch_category (channels g ! i) = Some category
          \<and> startswith (norm (ch_name (channels g ! i))) t)
       \<and> (\<forall>j < i. \<not> (ch_kind (channels g ! j) = VoiceChannel
                      \<and> ch_category (channels g ! j) = Some category
                      \<and> startswith (norm (ch_name (channels g ! j))) t))"
  unfolding voice_channels_def find_filter find_upt_Some by blast

lemma find_channel_None:
  "find (\<lambda>ch. startswith (norm (ch_name (channels g ! ch))) t) (voice_channels g category) = None
   \<longleftrightarrow> (\<forall>j < length (channels g). \<not> (ch_kind (channels g ! j) = VoiceChannel
                      \<and> ch_category (channels g ! j) = Some category
                      \<and> startswith (norm (ch_name (channels g ! j))) t))"
  unfolding voice_channels_def find_filter find_upt_None by blast

lemma create_voice_channel_ok:
  "api_faults g = [] \<Longrightarrow>
   create_voice_channel g category name =
     (Inr (length (channels g)),
      g\<lparr>channels := channels g @
           [\<lparr>ch_name = name, ch_kind = VoiceChannel,
             ch_category = Some category, connect_denied = False\<rparr>]\<rparr>)"
  by (simp add: create_voice_channel_def)

lemma edit_name_ok:
  "api_faults g = [] \<Longrightarrow>
   edit_name g ch name =
     (Inr (), g\<lparr>channels := (channels g)[ch := (channels g ! ch)\<lparr>ch_name := name\<rparr>]\<rparr>)"
  by (simp add: edit_name_def)

lemma set_permissions_ok:
  "api_faults g = [] \<Longrightarrow>
   set_permissions g ch =
     (Inr (), g\<lparr>channels := (channels g)[ch := (channels g ! ch)\<lparr>connect_denied := True\<rparr>]\<rparr>)"
  by (simp add: set_permissions_def)

lemma update_channel_found:
  assumes "api_faults g = []" and "map_of CHANNEL_KEYS key = Some label"
    and "find (\<lambda>ch. startswith (norm (ch_name (channels g ! ch))) (norm label))
           (voice_channels g category) = Some i"
  shows "update_channel rt g category key v =
     g\<lparr>channels := (channels g)[i := (channels g ! i)\<lparr>ch_name := label @ '' '' @ py_str rt v\<rparr>]\<rparr>"
  using assms by (simp add: update_channel_def get_or_create_channel_def edit_name_ok)

lemma update_channel_created:
  assumes "api_faults g = []" and "map_of CHANNEL_KEYS key = Some label"
    and "find (\<lambda>ch. startswith (norm (ch_name (channels g ! ch))) (norm label))
           (voice_channels g category) = None"
  shows "update_channel rt g category key v =
     g\<lparr>channels := channels g @
          [\<lparr>ch_name = label @ '' '' @ py_str rt v, ch_kind = VoiceChannel,
            ch_category = Some category, connect_denied = False\<rparr>]\<rparr>"
  using assms
  by (simp add: update_channel_def get_or_create_channel_def create_voice_channel_ok edit_name_ok)

lemma key_channels_eq:
  "map_of CHANNEL_KEYS key = Some label \<Longrightarrow>
   key_channels g category key =
     filter (\<lambda>i. ch_kind (channels g ! i) = VoiceChannel
                 \<and> ch_category (channels g ! i) = Some category
                 \<and> startswith (norm (ch_name (channels g ! i))) (norm label))
       [0 ..< length (channels g)]"
  by (simp add: key_channels_def voice_channels_def conj_commute conj_left_commute)

lemma key_channels_unknown: "map_of CHANNEL_KEYS key = None \<Longrightarrow> key_channels g category key = []"
  by (simp add: key_channels_def)

lemma find_hd_filter: "find P xs = Some x \<Longrightarrow> hd (filter P xs) = x"
  by (induction xs) (auto split: if_splits)

lemma startswith_comparable:
  "startswith x a \<Longrightarrow> startswith x b \<Longrightarrow> startswith a b \<or> startswith b a"
  unfolding startswith_iff by (auto simp: append_eq_append_conv2)

lemma labels_not_prefixes:
  "list_all (\<lambda>p. list_all (\<lambda>q. fst p = fst q \<or> \<not> startswith (norm (snd p)) (norm (snd q)))
      CHANNEL_KEYS) CHANNEL_KEYS"
  by code_simp

lemma labels_incomparable:
  assumes "map_of CHANNEL_KEYS key = Some label" and "map_of CHANNEL_KEYS key' = Some label'"
    and "key \<noteq> key'" and "startswith x (norm label)"
  shows "\<not> startswith x (norm label')"
proof
  assume "startswith x (norm label')"
  with assms(4) have "startswith (norm label) (norm label') \<or> startswith (norm label') (norm label)"
    by (rule startswith_comparable)
  moreover have p: "(key, label) \<in> set CHANNEL_KEYS"
    using assms(1) by (rule map_of_SomeD)
  have q: "(key', label') \<in> set CHANNEL_KEYS"
    using assms(2) by (rule map_of_SomeD)
  have all: "\<forall>p \<in> set CHANNEL_KEYS. \<forall>q \<in> set CHANNEL_KEYS.
      fst p = fst q \<or> \<not> startswith (norm (snd p)) (norm (snd q))"
    using labels_not_prefixes by (simp only: list_all_iff)
  from all p have "\<forall>q \<in> set CHANNEL_KEYS.
      fst (key, label) = fst q \<or> \<not> startswith (norm (snd (key, label))) (norm (snd q))"
    by (rule bspec)
  from this q have "fst (key, label) = fst (key', label')
      \<or> \<not> startswith (norm (snd (key, label))) (norm (snd (key', label')))"
    by (rule bspec)
  with assms(3) have "\<not> startswith (norm label) (norm label')"
    by simp
  moreover from all q have "\<forall>p \<in> set CHANNEL_KEYS.
      fst (key', label') = fst p \<or> \<not> startswith (norm (snd (key', label'))) (norm (snd p))"
    by (rule bspec)
  from this p have "fst (key', label') = fst (key, label)
      \<or> \<not> startswith (norm (snd (key', label'))) (norm (snd (key, label)))"
    by (rule bspec)
  with assms(3) have "\<not> startswith (norm label') (norm label)"
    by simp
  ultimately show False
    by blast
qed

lemma reconcile_found:
  fixes rt :: interp and v :: json
  assumes key: "map_of CHANNEL_KEYS key = Some label" and faults: "api_faults g = []"
    and found: "find (\<lambda>ch. startswith (norm (ch_name (channels g ! ch))) (norm label))
           (voice_channels g category) = Some i"
  defines "g1 \<equiv> g\<lparr>channels :=
      (channels g)[i := (channels g ! i)\<lparr>ch_name := label @ '' '' @ py_str rt v\<rparr>]\<rparr>"
  shows "update_channel rt g category key v = g1"
    and "update_channel rt g1 category key v = g1"
    and "key_channels g1 category key = key_channels g category key"
    and "key_channels g category key \<noteq> []"
    and "ch_name (channels g1 ! hd (key_channels g1 category key)) = label @ '' '' @ py_str rt v"
    and "key' \<noteq> key \<Longrightarrow> key_channels g1 category key' = key_channels g category key'"
proof -
  let ?L = "label @ '' '' @ py_str rt v"
  from found have i_lt: "i < length (channels g)"
    and kind_i: "ch_kind (channels g ! i) = VoiceChannel"
    and cat_i: "ch_category (channels g ! i) = Some category"
    and name_i: "startswith (norm (ch_name (channels g ! i))) (norm label)"
    and first: "\<And>j. j < i \<Longrightarrow> \<not> (ch_kind (channels g ! j) = VoiceChannel
                      \<and> ch_category (channels g ! j) = Some category
                      \<and> startswith (norm (ch_name (channels g ! j))) (norm label))"
    unfolding find_channel_Some by blast+
  have len: "length (channels g1) = length (channels g)"
    by (simp add: g1_def)
  have same: "\<And>j. j \<noteq> i \<Longrightarrow> channels g1 ! j = channels g ! j"
    by (simp add: g1_def)
  have at_i: "channels g1 ! i = (channels g ! i)\<lparr>ch_name := ?L\<rparr>"
    using i_lt by (simp add: g1_def)
  have match_L: "startswith (norm ?L) (norm label)"
    by (rule renamed_channel_matches [OF key])
  have faults1: "api_faults g1 = []"
    using faults by (simp add: g1_def)
  show upd: "update_channel rt g category key v = g1"
    unfolding g1_def by (rule update_channel_found [OF faults key found])
  have found1: "find (\<lambda>ch. startswith (norm (ch_name (channels g1 ! ch))) (norm label))
           (voice_channels g1 category) = Some i"
    unfolding find_channel_Some
  proof (intro conjI allI impI)
    show "i < length (channels g1)"
      using i_lt len by simp
    show "ch_kind (channels g1 ! i) = VoiceChannel"
      using kind_i at_i by simp
    show "ch_category (channels g1 ! i) = Some category"
      using cat_i at_i by simp
    show "startswith (norm (ch_name (channels g1 ! i))) (norm label)"
      using match_L at_i by simp
  next
    fix j assume "j < i"
    then have "channels g1 ! j = channels g ! j"
      by (intro same) simp
    with first [OF \<open>j < i\<close>]
    show "\<not> (ch_kind (channels g1 ! j) = VoiceChannel
            \<and> ch_category (channels g1 ! j) = Some category
            \<and> startswith (norm (ch_name (channels g1 ! j))) (norm label))"
      by simp
  qed
  have "update_channel rt g1 category key v =
      g1\<lparr>channels := (channels g1)[i := (channels g1 ! i)\<lparr>ch_name := ?L\<rparr>]\<rparr>"
    by (rule update_channel_found [OF faults1 key found1])
  also have "\<dots> = g1"
    using i_lt by (simp add: g1_def)
  finally show "update_channel rt g1 category key v = g1" .
  have match_same: "\<And>j. (ch_kind (channels g1 ! j) = VoiceChannel
            \<and> ch_category (channels g1 ! j) = Some category
            \<and> startswith (norm (ch_name (channels g1 ! j))) (norm label))
        = (ch_kind (channels g ! j) = VoiceChannel
            \<and> ch_category (channels g ! j) = Some category
            \<and> startswith (norm (ch_name (channels g ! j))) (norm label))"
  proof -
    fix j
    show "(ch_kind (channels g1 ! j) = VoiceChannel
            \<and> ch_category (channels g1 ! j) = Some category
            \<and> startswith (norm (ch_name (channels g1 ! j))) (norm label))
        = (ch_kind (channels g ! j) = VoiceChannel
            \<and> ch_category (channels g ! j) = Some category
            \<and> startswith (norm (ch_name (channels g ! j))) (norm label))"
    proof (cases "j = i")
      case True
      then show ?thesis
        using at_i kind_i cat_i name_i match_L by simp
    next
      case False
      then show ?thesis
        by (simp add: same)
    qed
  qed
  show same_key: "key_channels g1 category key = key_channels g category key"
    by (simp add: key_channels_eq [OF key] len match_same)
  have "i \<in> set (key_channels g category key)"
    using i_lt kind_i cat_i name_i by (simp add: key_channels_eq [OF key])
  then show "key_channels g category key \<noteq> []"
    by auto
  have "hd (filter (\<lambda>ch. startswith (norm (ch_name (channels g1 ! ch))) (norm label))
         (voice_channels g1 category)) = i"
    using found1 by (rule find_hd_filter)
  then have "hd (key_channels g1 category key) = i"
    by (simp add: key_channels_def key)
  then show "ch_name (channels g1 ! hd (key_channels g1 category key)) = ?L"
    using at_i by simp
  show "key_channels g1 category key' = key_channels g category key'" if other: "key' \<noteq> key"
  proof (cases "map_of CHANNEL_KEYS key'")
    case None
    then show ?thesis
      by (simp add: key_channels_unknown)
  next
    case (Some label')
    have not_i: "\<not> startswith (norm (ch_name (channels g ! i))) (norm label')"
      using key Some other name_i by (intro labels_incomparable [of key label key' label']) auto
    have not_L: "\<not> startswith (norm ?L) (norm label')"
      using key Some other match_L by (intro labels_incomparable [of key label key' label']) auto
    have "\<And>j. (ch_kind (channels g1 ! j) = VoiceChannel
            \<and> ch_category (channels g1 ! j) = Some category
            \<and> startswith (norm (ch_name (channels g1 ! j))) (norm label'))
        = (ch_kind (channels g ! j) = VoiceChannel
            \<and> ch_category (channels g ! j) = Some category
            \<and> startswith (norm (ch_name (channels g ! j))) (norm label'))"
    proof -
      fix j
      show "(ch_kind (channels g1 ! j) = VoiceChannel
            \<and> ch_category (channels g1 ! j) = Some category
            \<and> startswith (norm (ch_name (channels g1 ! j))) (norm label'))
        = (ch_kind (channels g ! j) = VoiceChannel
            \<and> ch_category (channels g ! j) = Some category
            \<and> startswith (norm (ch_name (channels g ! j))) (norm label'))"
      proof (cases "j = i")
        case True
        then show ?thesis
          using at_i not_i not_L by simp
      next
        case False
        then show ?thesis
          by (simp add: same)
      qed
    qed
    then show ?thesis
      by (simp add: key_channels_eq [OF Some] len)
  qed
qed

lemma reconcile_created:
  fixes rt :: interp and v :: json
  assumes key: "map_of CHANNEL_KEYS key = Some label" and faults: "api_faults g = []"
    and none: "find (\<lambda>ch. startswith (norm (ch_name (channels g ! ch))) (norm label))
           (voice_channels g category) = None"
  defines "g1 \<equiv> g\<lparr>channels := channels g @
          [\<lparr>ch_name = label @ '' '' @ py_str rt v, ch_kind = VoiceChannel,
            ch_category = Some category, connect_denied = False\<rparr>]\<rparr>"
  shows "update_channel rt g category key v = g1"
    and "update_channel rt g1 category key v = g1"
    and "key_channels g1 category key = [length (channels g)]"
    and "key_channels g category key = []"
    and "ch_name (channels g1 ! hd (key_channels g1 category key)) = label @ '' '' @ py_str rt v"
    and "key' \<noteq> key \<Longrightarrow> key_channels g1 category key' = key_channels g category key'"
proof -
  let ?L = "label @ '' '' @ py_str rt v"
  let ?n = "length (channels g)"
  from none have unmatched: "\<And>j. j < ?n \<Longrightarrow> \<not> (ch_kind (channels g ! j) = VoiceChannel
                      \<and> ch_category (channels g ! j) = Some category
                      \<and> startswith (norm (ch_name (channels g ! j))) (norm label))"
    unfolding find_channel_None by blast
  have len: "length (channels g1) = Suc ?n"
    by (simp add: g1_def)
  have same: "\<And>j. j < ?n \<Longrightarrow> channels g1 ! j = channels g ! j"
    by (simp add: g1_def nth_append)
  have at_n: "channels g1 ! ?n = \<lparr>ch_name = ?L, ch_kind = VoiceChannel,
            ch_category = Some category, connect_denied = False\<rparr>"
    by (simp add: g1_def)
  have match_L: "startswith (norm ?L) (norm label)"
    by (rule renamed_channel_matches [OF key])
  have faults1: "api_faults g1 = []"
    using faults by (simp add: g1_def)
  show "update_channel rt g category key v = g1"
    unfolding g1_def by (rule update_channel_created [OF faults key none])
  have found1: "find (\<lambda>ch. startswith (norm (ch_name (channels g1 ! ch))) (norm label))
           (voice_channels g1 category) = Some ?n"
    unfolding find_channel_Some
  proof (intro conjI allI impI)
    show "?n < length (channels g1)"
      using len by simp
    show "ch_kind (channels g1 ! ?n) = VoiceChannel"
      using at_n by simp
    show "ch_category (channels g1 ! ?n) = Some category"
      using at_n by simp
    show "startswith (norm (ch_name (channels g1 ! ?n))) (norm label)"
      using match_L at_n by simp
  next
    fix j assume "j < ?n"
    with unmatched [of j] same [of j]
    show "\<not> (ch_kind (channels g1 ! j) = VoiceChannel
            \<and> ch_category (channels g1 ! j) = Some category
            \<and> startswith (norm (ch_name (channels g1 ! j))) (norm label))"
      by simp
  qed
  have "update_channel rt g1 category key v =
      g1\<lparr>channels := (channels g1)[?n := (channels g1 ! ?n)\<lparr>ch_name := ?L\<rparr>]\<rparr>"
    by (rule update_channel_found [OF faults1 key found1])
  also have "\<dots> = g1"
    by (simp add: g1_def)
  finally show "update_channel rt g1 category key v = g1" .
  have old_none: "filter (\<lambda>i. ch_kind (channels g1 ! i) = VoiceChannel
                 \<and> ch_category (channels g1 ! i) = Some category
                 \<and> startswith (norm (ch_name (channels g1 ! i))) (norm label)) [0 ..< ?n] = []"
    using unmatched same by (simp add: filter_empty_conv)
  show new_key: "key_channels g1 category key = [?n]"
    using old_none at_n match_L by (simp add: key_channels_eq [OF key] len)
  show "key_channels g category key = []"
    using unmatched by (simp add: key_channels_eq [OF key] filter_empty_conv)
  show "ch_name (channels g1 ! hd (key_channels g1 category key)) = ?L"
    using at_n by (simp add: new_key)
  show "key_channels g1 category key' = key_channels g category key'" if other: "key' \<noteq> key"
  proof (cases "map_of CHANNEL_KEYS key'")
    case None
    then show ?thesis
      by (simp add: key_channels_unknown)
  next
    case (Some label')
    have not_L: "\<not> startswith (norm ?L) (norm label')"
      using key Some other match_L by (intro labels_incomparable [of key label key' label']) auto
    have "filter (\<lambda>i. ch_kind (channels g1 ! i) = VoiceChannel
                 \<and> ch_category (channels g1 ! i) = Some category
                 \<and> startswith (norm (ch_name (channels g1 ! i))) (norm label')) [0 ..< ?n]
        = filter (\<lambda>i. ch_kind (channels g ! i) = VoiceChannel
                 \<and> ch_category (channels g ! i) = Some category
                 \<and> startswith (norm (ch_name (channels g ! i))) (norm label')) [0 ..< ?n]"
      by (rule filter_cong) (simp_all add: same)
    then show ?thesis
      using at_n not_L by (simp add: key_channels_eq [OF Some] len)
  qed
qed

text \<open>
  Claim C3. When the platform calls succeed, reconciling a key twice with the same
  value gives the state that reconciling it once gives: no second resource is created;
  the resources of the key are as many as before, or one when there was none, so a
  category with at most one resource for the key has exactly one afterwards; the
  resource that the lookup finds is labelled with the label prefix, a space and the
  value; and the resources of every other key are the ones they were.
\<close>

theorem reconcile_idempotent:
  fixes rt :: interp and v :: json and category :: nat
  assumes key: "map_of CHANNEL_KEYS key = Some label" and faults: "api_faults g = []"
  defines "once \<equiv> update_channel rt g category key v"
  defines "twice \<equiv> update_channel rt once category key v"
  shows "twice = once
    \<and> length (key_channels twice category key) = max 1 (length (key_channels g category key))
    \<and> (length (key_channels g category key) \<le> 1 \<longrightarrow>
         (\<exists>ch. key_channels twice category key = [ch]
            \<and> ch_name (channels twice ! ch) = label @ '' '' @ py_str rt v))
    \<and> ch_name (channels twice ! hd (key_channels twice category key))
         = label @ '' '' @ py_str rt v
    \<and> (\<forall>key'. key' \<noteq> key \<longrightarrow>
         key_channels twice category key' = key_channels g category key')"
proof (cases "find (\<lambda>ch. startswith (norm (ch_name (channels g ! ch))) (norm label))
           (voice_channels g category)")
  case None
  note r = reconcile_created [OF key faults None]
  have once: "once = g\<lparr>channels := channels g @
          [\<lparr>ch_name = label @ '' '' @ py_str rt v, ch_kind = VoiceChannel,
            ch_category = Some category, connect_denied = False\<rparr>]\<rparr>"
    unfolding once_def by (rule r(1))
  have twice: "twice = once"
    unfolding twice_def once by (rule r(2))
  have one: "key_channels once category key = [length (channels g)]"
    unfolding once by (rule r(3))
  have zero: "key_channels g category key = []"
    by (rule r(4))
  have name: "ch_name (channels once ! hd (key_channels once category key))
      = label @ '' '' @ py_str rt v"
    unfolding once by (rule r(5))
  have others: "\<And>key'. key' \<noteq> key \<Longrightarrow>
      key_channels once category key' = key_channels g category key'"
    unfolding once by (rule r(6))
  from name one have "ch_name (channels once ! length (channels g)) = label @ '' '' @ py_str rt v"
    by simp
  with twice one zero name others show ?thesis
    by simp
next
  case (Some i)
  note r = reconcile_found [OF key faults Some]
  have once: "once = g\<lparr>channels :=
      (channels g)[i := (channels g ! i)\<lparr>ch_name := label @ '' '' @ py_str rt v\<rparr>]\<rparr>"
    unfolding once_def by (rule r(1))
  have twice: "twice = once"
    unfolding twice_def once by (rule r(2))
  have same: "key_channels once category key = key_channels g category key"
    unfolding once by (rule r(3))
  have some: "key_channels g category key \<noteq> []"
    by (rule r(4))
  have name: "ch_name (channels once ! hd (key_channels once category key))
      = label @ '' '' @ py_str rt v"
    unfolding once by (rule r(5))
  have others: "\<And>key'. key' \<noteq> key \<Longrightarrow>
      key_channels once category key' = key_channels g category key'"
    unfolding once by (rule r(6))
  from some have len: "1 \<le> length (key_channels g category key)"
    by (cases "key_channels g category key") simp_all
  have single: "\<exists>ch. key_channels once category key = [ch]
       \<and> ch_name (channels once ! ch) = label @ '' '' @ py_str rt v"
    if "length (key_channels g category key) \<le> 1"
  proof -
    from that len have "length (key_channels g category key) = 1"
      by simp
    then obtain ch where "key_channels g category key = [ch]"
      by (cases "key_channels g category key") simp_all
    with same name show ?thesis
      by simp
  qed
  from twice same len name others single show ?thesis
    by (simp add: max_def)
qed

theorem reconcile_idempotent_witness:
  "update_channel example_interp
     (update_channel example_interp example_guild 1 ''members'' (JStr ''1,234''))
     1 ''members'' (JStr ''1,234'')
     = update_channel example_interp example_guild 1 ''members'' (JStr ''1,234'')
   \<and> key_channels example_guild 1 ''members'' = [1]
   \<and> key_channels
       (update_channel example_interp
          (update_channel example_interp example_guild 1 ''members'' (JStr ''1,234''))
          1 ''members'' (JStr ''1,234'')) 1 ''members'' = [1]
   \<and> map ch_name (channels
       (update_channel example_interp
          (update_channel example_interp example_guild 1 ''members'' (JStr ''1,234''))
          1 ''members'' (JStr ''1,234'')))
     = [''chat'', ''Members: 1,234'', ''Block: stage'', ''Lounge'', ''Price: elsewhere'']"
proof -
  have key: "map_of CHANNEL_KEYS ''members'' = Some ''Members:''"
    by (simp add: CHANNEL_KEYS_def)
  have faults: "api_faults example_guild = []"
    by (simp add: example_guild_def)
  have before: "key_channels example_guild 1 ''members'' = [1]"
    by code_simp
  have once: "key_channels
       (update_channel example_interp example_guild 1 ''members'' (JStr ''1,234''))
       1 ''members'' = [1]"
    by code_simp
  have names: "map ch_name (channels
       (update_channel example_interp example_guild 1 ''members'' (JStr ''1,234'')))
     = [''chat'', ''Members: 1,234'', ''Block: stage'', ''Lounge'', ''Price: elsewhere'']"
    by code_simp
  from reconcile_idempotent [OF key faults, of example_interp 1 "JStr ''1,234''"]
  have "update_channel example_interp
     (update_channel example_interp example_guild 1 ''members'' (JStr ''1,234''))
     1 ''members'' (JStr ''1,234'')
     = update_channel example_interp example_guild 1 ''members'' (JStr ''1,234'')"
    by (rule conjunct1)
  with before once names show ?thesis
    by simp
qed

end
